theory Spec2Isabelle
  imports Main
begin

section \<open>Python strings\<close>

text \<open>
  The pattern compiler of \<^verbatim>\<open>treematcher.py\<close> works on node names with the methods of
  Python's \<^verbatim>\<open>str\<close>. Each one used by the source is written out here, on \<open>string\<close>.
\<close>

datatype pyerr =
  ValueError | NameError | IndexError | AttributeError | KeyError | TypeError | SyntaxError
  | OutOfFuel

text \<open>\<^verbatim>\<open>s.startswith(p)\<close>\<close>

fun startswith :: "string \<Rightarrow> string \<Rightarrow> bool" where
  "startswith s [] = True"
| "startswith [] (p # ps) = False"
| "startswith (c # s) (p # ps) = (c = p \<and> startswith s ps)"

text \<open>\<^verbatim>\<open>sub in s\<close>\<close>

fun str_contains :: "string \<Rightarrow> string \<Rightarrow> bool" where
  "str_contains sub [] = (sub = [])"
| "str_contains sub (c # s) = (startswith (c # s) sub \<or> str_contains sub s)"

text \<open>\<^verbatim>\<open>s.find(sub)\<close>: the first index where \<open>sub\<close> starts, or \<open>-1\<close>.\<close>

fun find_from :: "string \<Rightarrow> string \<Rightarrow> nat \<Rightarrow> int" where
  "find_from sub [] k = (if sub = [] then int k else - 1)"
| "find_from sub (c # s) k = (if startswith (c # s) sub then int k else find_from sub s (Suc k))"

definition str_find :: "string \<Rightarrow> string \<Rightarrow> int" where
  "str_find s sub = find_from sub s 0"

text \<open>\<^verbatim>\<open>s[a:b]\<close>: a negative index counts from the end, and both ends are clamped.\<close>

definition slice_index :: "nat \<Rightarrow> int \<Rightarrow> nat" where
  "slice_index n i = (if i < 0 then nat (max 0 (int n + i)) else min (nat i) n)"

definition str_slice :: "int \<Rightarrow> int \<Rightarrow> string \<Rightarrow> string" where
  "str_slice a b s =
     (let i = slice_index (length s) a; j = slice_index (length s) b
      in take (j - i) (drop i s))"

text \<open>\<^verbatim>\<open>s.split(c)\<close> for a separator of one character (the source splits at
  \<^verbatim>\<open>","\<close>, \<^verbatim>\<open>"-"\<close> and \<^verbatim>\<open>"["\<close> only).\<close>

fun split_acc :: "char \<Rightarrow> string \<Rightarrow> string \<Rightarrow> string list" where
  "split_acc sep acc [] = [rev acc]"
| "split_acc sep acc (c # s) =
     (if c = sep then rev acc # split_acc sep [] s else split_acc sep (c # acc) s)"

definition str_split :: "string \<Rightarrow> char \<Rightarrow> string list" where
  "str_split s sep = split_acc sep [] s"

text \<open>\<^verbatim>\<open>s.replace(old, new)\<close>, left to right, for a non-empty \<open>old\<close>.\<close>

function str_replace :: "string \<Rightarrow> string \<Rightarrow> string \<Rightarrow> string" where
  "str_replace s old new =
     (if s = [] then []
      else if old \<noteq> [] \<and> startswith s old then new @ str_replace (drop (length old) s) old new
      else hd s # str_replace (tl s) old new)"
  by pat_completeness auto
termination
  by (relation "measure (\<lambda>(s, old, new). length s)") auto

definition is_space :: "char \<Rightarrow> bool" where
  "is_space c = (c \<in> set [CHR '' '', CHR 0x09, CHR 0x0A, CHR 0x0B, CHR 0x0C, CHR 0x0D])"

text \<open>\<^verbatim>\<open>s.strip()\<close>\<close>

definition str_strip :: "string \<Rightarrow> string" where
  "str_strip s = rev (dropWhile is_space (rev (dropWhile is_space s)))"

text \<open>\<^verbatim>\<open>c.isalpha()\<close> on a one-character byte string: an ASCII letter.\<close>

definition isalpha :: "char \<Rightarrow> bool" where
  "isalpha c = (let n = of_char c :: nat in (65 \<le> n \<and> n \<le> 90) \<or> (97 \<le> n \<and> n \<le> 122))"

definition isdigit :: "char \<Rightarrow> bool" where
  "isdigit c = (let n = of_char c :: nat in 48 \<le> n \<and> n \<le> 57)"

text \<open>\<^verbatim>\<open>sep.join(xs)\<close>\<close>

fun str_join :: "string \<Rightarrow> string list \<Rightarrow> string" where
  "str_join sep [] = []"
| "str_join sep [x] = x"
| "str_join sep (x # y # xs) = x @ sep @ str_join sep (y # xs)"

text \<open>
  \<^verbatim>\<open>int(s)\<close> on a string, base ten: surrounding white space is dropped, one sign is
  allowed, and at least one digit must follow and nothing else; any other text raises
  \<^verbatim>\<open>ValueError\<close>.
\<close>

fun digits_val :: "string \<Rightarrow> nat \<Rightarrow> nat" where
  "digits_val [] acc = acc"
| "digits_val (c # s) acc = digits_val s (10 * acc + (of_char c - 48))"

definition unsigned_int :: "string \<Rightarrow> pyerr + int" where
  "unsigned_int s =
     (if s \<noteq> [] \<and> list_all isdigit s then Inr (int (digits_val s 0)) else Inl ValueError)"

definition py_int :: "string \<Rightarrow> pyerr + int" where
  "py_int s =
     (case str_strip s of
        [] \<Rightarrow> Inl ValueError
      | c # r \<Rightarrow>
          if c = CHR ''-'' then (case unsigned_int r of Inl e \<Rightarrow> Inl e | Inr n \<Rightarrow> Inr (- n))
          else if c = CHR ''+'' then unsigned_int r
          else unsigned_int (c # r))"


section \<open>The symbol tables\<close>

text \<open>
  \<^verbatim>\<open>treematcher.py\<close> imports two dictionaries, \<^verbatim>\<open>SYMBOL\<close> and \<^verbatim>\<open>SET\<close>, from a
  module \<^verbatim>\<open>symbols\<close> that is not among the sources. The keys the source reads are the
  fields below; the characters and marker strings behind them are a parameter of every
  function that reads them. A value of \<^verbatim>\<open>SYMBOL\<close> is compared with one character of a
  node name, so it is a \<open>char\<close>; a value of \<^verbatim>\<open>SET\<close> is searched for in a node name.
\<close>

record symbols =
  sym_is_leaf :: char
  sym_is_root :: char
  sym_one_or_more :: char
  sym_zero_or_one :: char
  sym_zero_or_more :: char
  sym_not :: char
  sym_defined_number_set_start :: char
  sym_defined_number_set_end :: char
  sym_node_reference :: char
  set_any_child :: string
  set_children :: string
  set_all_nodes :: string

text \<open>\<^verbatim>\<open>SYMBOL.values()\<close>\<close>

definition SYMBOL_values :: "symbols \<Rightarrow> char list" where
  "SYMBOL_values sy =
     [sym_is_leaf sy, sym_is_root sy, sym_one_or_more sy, sym_zero_or_one sy,
      sym_zero_or_more sy, sym_not sy, sym_defined_number_set_start sy,
      sym_defined_number_set_end sy, sym_node_reference sy]"

text \<open>
  The characters that the pattern texts of the tests and of \<^verbatim>\<open>test()\<close> use
  (\<^verbatim>\<open>((c)+)a\<close>, \<^verbatim>\<open>((c)*)a\<close>, \<^verbatim>\<open>'a, ^'\<close>, \<^verbatim>\<open>'d!'\<close>, \<^verbatim>\<open>{2}\<close>, \<^verbatim>\<open>@\<close>), with \<^verbatim>\<open>?\<close> and
  \<^verbatim>\<open>$\<close> for the two markers no pattern text of the sources shows. The three markers of
  \<^verbatim>\<open>SET\<close> stay arguments.
\<close>

definition std_symbols :: "string \<Rightarrow> string \<Rightarrow> string \<Rightarrow> symbols" where
  "std_symbols any_c chil alln =
     \<lparr> sym_is_leaf = CHR ''$'', sym_is_root = CHR ''^'', sym_one_or_more = CHR ''+'',
       sym_zero_or_one = CHR ''?'', sym_zero_or_more = CHR ''*'', sym_not = CHR ''!'',
       sym_defined_number_set_start = CHR ''{'', sym_defined_number_set_end = CHR ''}'',
       sym_node_reference = CHR ''@'',
       set_any_child = any_c, set_children = chil, set_all_nodes = alln \<rparr>"

section \<open>The pattern compiler\<close>

text \<open>
  The dictionary \<^verbatim>\<open>controller\<close> of a pattern node. The keys \<^verbatim>\<open>"root"\<close>,
  \<^verbatim>\<open>"leaf"\<close> and \<^verbatim>\<open>"single_match_contstraint"\<close> exist only once they are set, so they are
  options; the others are set by \<^verbatim>\<open>set_controller\<close> in every case.
\<close>

record controller =
  root :: "bool option"
  leaf :: "bool option"
  c_not :: bool
  low :: int
  high :: int
  skipped :: int
  single_match :: bool
  single_match_contstraint :: "string option"
  allow_indirect_connection :: bool
  direct_connection_first :: bool

text \<open>
  The dictionary that \<^verbatim>\<open>define_skipping_properties\<close> returns holds only the keys that a
  metacharacter has set: each field is \<open>None\<close> until then.
\<close>

record properties =
  pr_root :: "bool option"
  pr_leaf :: "bool option"
  pr_not :: "bool option"
  pr_low :: "int option"
  pr_high :: "int option"
  pr_allow_indirect_connection :: "bool option"
  pr_direct_connection_first :: "bool option"

definition no_properties :: properties where
  "no_properties =
     \<lparr> pr_root = None, pr_leaf = None, pr_not = None, pr_low = None, pr_high = None,
       pr_allow_indirect_connection = None, pr_direct_connection_first = None \<rparr>"

text \<open>\<^verbatim>\<open>TreePattern.is_in_bounds\<close>\<close>

datatype bound = Low | High

definition is_in_bounds :: "controller \<Rightarrow> bound \<Rightarrow> int \<Rightarrow> bool" where
  "is_in_bounds c b test =
     (case b of
        Low \<Rightarrow> test \<ge> low c
      | High \<Rightarrow> (if high c \<ge> 0 then test \<le> high c else True))"

text \<open>\<^verbatim>\<open>TreePattern.decode_repeat_symbol\<close>: the pair \<open>(low, high)\<close> of a marker
  \<^verbatim>\<open>{x-y}\<close>, or the \<^verbatim>\<open>ValueError\<close> of \<^verbatim>\<open>int\<close>. A piece \<^verbatim>\<open>split[1]\<close> always exists when
  the text holds a \<^verbatim>\<open>-\<close>.\<close>

definition decode_repeat_symbol :: "string \<Rightarrow> pyerr + (int \<times> int)" where
  "decode_repeat_symbol bounds0 =
     (let bounds = str_slice 1 (int (length bounds0) - 1) bounds0 in
      if str_contains ''-'' bounds then
        (let split = str_split bounds CHR ''-'' in
         case (if split ! 0 \<noteq> [] then py_int (split ! 0) else Inr 0) of
           Inl e \<Rightarrow> Inl e
         | Inr lo \<Rightarrow>
             (case (if split ! 1 \<noteq> [] then py_int (split ! 1) else Inr (- 1)) of
                Inl e \<Rightarrow> Inl e
              | Inr hi \<Rightarrow> Inr (lo, hi)))
      else (case py_int bounds of Inl e \<Rightarrow> Inl e | Inr n \<Rightarrow> Inr (n, n)))"

lemma find_from_bounds:
  "str_contains sub s \<Longrightarrow> sub \<noteq> [] \<Longrightarrow> int k \<le> find_from sub s k \<and> find_from sub s k < int k + int (length s)"
proof (induction s arbitrary: k)
  case Nil
  then show ?case by simp
next
  case (Cons c s)
  show ?case
  proof (cases "startswith (c # s) sub")
    case True
    then show ?thesis by simp
  next
    case False
    with Cons.prems have "str_contains sub s" by simp
    from Cons.IH[OF this Cons.prems(2), of "Suc k"] False show ?thesis by simp
  qed
qed

lemma str_find_bounds:
  "str_contains sub s \<Longrightarrow> sub \<noteq> [] \<Longrightarrow> 0 \<le> str_find s sub \<and> str_find s sub < int (length s)"
  using find_from_bounds[of sub s 0] by (simp add: str_find_def)

lemma length_str_slice_find:
  "str_contains [c] s \<Longrightarrow> length (str_slice 0 (str_find s [c]) s) < length s"
  using str_find_bounds[of "[c]" s] by (auto simp add: str_slice_def slice_index_def min_def)

lemma length_str_slice_butlast:
  "name \<noteq> [] \<Longrightarrow> length (str_slice 0 (int (length name) - 1) name) < length name"
  by (cases name) (auto simp add: str_slice_def slice_index_def min_def)

text \<open>\<^verbatim>\<open>TreePattern.parse_metacharacters\<close>: the loop, on the name and the list collected
  so far; the result is the name that is left and the metacharacters.\<close>

function parse_metacharacters_loop :: "symbols \<Rightarrow> string \<Rightarrow> string list \<Rightarrow> string \<times> string list" where
  "parse_metacharacters_loop sy name metacharacters =
     (if length name > 0 \<and> last name \<in> set (SYMBOL_values sy) then
        if str_contains [sym_defined_number_set_start sy] name then
          parse_metacharacters_loop sy
            (str_slice 0 (str_find name [sym_defined_number_set_start sy]) name)
            (metacharacters @
               [str_slice (str_find name [sym_defined_number_set_start sy])
                  (str_find name [sym_defined_number_set_end sy] + 1) name])
        else
          parse_metacharacters_loop sy
            (if length name > 0 then str_slice 0 (int (length name) - 1) name else name)
            (metacharacters @ [[last name]])
      else (name, metacharacters))"
  by pat_completeness auto
termination
  by (relation "measure (\<lambda>(sy, name, metacharacters). length name)")
     (simp_all add: length_str_slice_find length_str_slice_butlast)

definition parse_metacharacters :: "symbols \<Rightarrow> string \<Rightarrow> string \<times> string list" where
  "parse_metacharacters sy name0 =
     (case parse_metacharacters_loop sy name0 [] of
        (name, metacharacters) \<Rightarrow>
          (if length name < 1 then [sym_node_reference sy] else name, metacharacters))"

text \<open>\<^verbatim>\<open>TreePattern.parse_node_name\<close>\<close>

definition parse_node_name :: "string \<Rightarrow> string" where
  \<open>parse_node_name name =
     (let expressions = map str_strip (str_split name CHR '','');
          expressions = map (\<lambda>e. if length e > 0 \<and> list_all isalpha e
                                  then ''@.name == "'' @ e @ ''"'' else e) expressions
      in str_join '' and '' (filter (\<lambda>e. length e > 0) expressions))\<close>


text \<open>
  \<^verbatim>\<open>TreePattern.define_skipping_properties\<close>: the loop over the metacharacters, on the
  dictionary built so far. (The source also splits \<^verbatim>\<open>self.name\<close> in the last branch and
  never reads the result.)
\<close>

fun define_skipping_properties_loop :: "symbols \<Rightarrow> string list \<Rightarrow> properties \<Rightarrow> pyerr + properties" where
  "define_skipping_properties_loop sy [] c = Inr c"
| "define_skipping_properties_loop sy (m # ms) c0 =
     (let c1 = (if m = [sym_is_root sy] then c0\<lparr>pr_root := Some True\<rparr> else c0);
          c2 = (if m = [sym_is_leaf sy] then c1\<lparr>pr_leaf := Some True\<rparr> else c1);
          c = (if m = [sym_not sy] then c2\<lparr>pr_not := Some True\<rparr> else c2)
      in
      if m = [sym_one_or_more sy] then
        define_skipping_properties_loop sy ms
          (c\<lparr>pr_allow_indirect_connection := Some True,
             pr_direct_connection_first := Some False, pr_low := Some 1\<rparr>)
      else if m = [sym_zero_or_more sy] then
        define_skipping_properties_loop sy ms
          (c\<lparr>pr_allow_indirect_connection := Some True,
             pr_direct_connection_first := Some True\<rparr>)
      else if m = [sym_zero_or_one sy] then
        define_skipping_properties_loop sy ms
          (c\<lparr>pr_direct_connection_first := Some True,
             pr_allow_indirect_connection := Some True, pr_high := Some 1\<rparr>)
      else if str_contains [sym_defined_number_set_start sy] m then
        (case decode_repeat_symbol m of
           Inl e \<Rightarrow> Inl e
         | Inr (lo, hi) \<Rightarrow>
             define_skipping_properties_loop sy ms
               (c\<lparr>pr_low := Some lo, pr_high := Some hi,
                  pr_allow_indirect_connection := Some True,
                  pr_direct_connection_first := Some (lo = 0)\<rparr>))
      else define_skipping_properties_loop sy ms c)"

definition define_skipping_properties :: "symbols \<Rightarrow> string list \<Rightarrow> pyerr + properties" where
  "define_skipping_properties sy metacharacters =
     define_skipping_properties_loop sy metacharacters no_properties"

text \<open>The values that \<^verbatim>\<open>set_controller\<close> stores before it reads the metacharacters.\<close>

definition default_controller :: controller where
  "default_controller =
     \<lparr> root = None, leaf = None, c_not = False, low = 0, high = - 1, skipped = 0,
       single_match = False, single_match_contstraint = None,
       allow_indirect_connection = False, direct_connection_first = False \<rparr>"

text \<open>\<^verbatim>\<open>controller.update(properties)\<close>\<close>

definition update_controller :: "controller \<Rightarrow> properties \<Rightarrow> controller" where
  "update_controller c pr =
     c\<lparr> root := (case pr_root pr of None \<Rightarrow> root c | Some b \<Rightarrow> Some b),
        leaf := (case pr_leaf pr of None \<Rightarrow> leaf c | Some b \<Rightarrow> Some b),
        c_not := (case pr_not pr of None \<Rightarrow> c_not c | Some b \<Rightarrow> b),
        low := (case pr_low pr of None \<Rightarrow> low c | Some n \<Rightarrow> n),
        high := (case pr_high pr of None \<Rightarrow> high c | Some n \<Rightarrow> n),
        allow_indirect_connection :=
          (case pr_allow_indirect_connection pr of
             None \<Rightarrow> allow_indirect_connection c | Some b \<Rightarrow> b),
        direct_connection_first :=
          (case pr_direct_connection_first pr of
             None \<Rightarrow> direct_connection_first c | Some b \<Rightarrow> b) \<rparr>"

text \<open>
  The rewriting of a name that holds a marker of \<^verbatim>\<open>SET\<close>:
  \<^verbatim>\<open>fn + name.split("[")[0] + " " + ("[" + name.split("[")[1]).replace(marker, "x") + " for x in __target_node.children)"\<close>.
  The second piece of the split does not exist when the name has no \<^verbatim>\<open>[\<close>: Python raises
  \<^verbatim>\<open>IndexError\<close>.
\<close>

definition rewrite_set :: "string \<Rightarrow> string \<Rightarrow> string \<Rightarrow> pyerr + string" where
  "rewrite_set fn marker name =
     (let pieces = str_split name CHR ''['' in
      if length pieces < 2 then Inl IndexError
      else Inr (fn @ pieces ! 0 @ '' '' @ str_replace (''['' @ pieces ! 1) marker ''x''
                @ '' for x in __target_node.children)''))"

text \<open>
  \<^verbatim>\<open>TreePattern.set_controller\<close>, on the name of the node: the name and the controller
  that the method stores in the node (its return value is \<open>single_match\<close> of the
  controller). The method assigns \<^verbatim>\<open>self.name\<close> several times before it assigns
  \<^verbatim>\<open>self.controller\<close> at its end, so when it raises, the node is left with the name
  assigned last: the error comes with that name.
\<close>

definition compile_name :: "symbols \<Rightarrow> string \<Rightarrow> (pyerr \<times> string) + (string \<times> controller)" where
  "compile_name sy name0 =
     (case (if length name0 > 0 then parse_metacharacters sy name0 else (name0, [])) of
        (name1, metacharacters) \<Rightarrow>
     (case define_skipping_properties sy metacharacters of
        Inl e \<Rightarrow> Inl (e, name1)
      | Inr properties \<Rightarrow>
     (let controller = update_controller default_controller properties;
          name2 = parse_node_name name1
      in
      case (if str_contains (set_any_child sy) name2
            then rewrite_set '' any( '' (set_any_child sy) name2 else Inr name2) of
        Inl e \<Rightarrow> Inl (e, name2)
      | Inr name3 \<Rightarrow>
     (case (if str_contains (set_children sy) name3
            then rewrite_set '' all( '' (set_children sy) name3 else Inr name3) of
        Inl e \<Rightarrow> Inl (e, name3)
      | Inr name4 \<Rightarrow>
          if str_contains (set_all_nodes sy) name4
          then Inr (''@'', controller\<lparr>single_match := True,
                                      single_match_contstraint := Some name4\<rparr>)
          else Inr (name4, controller)))))"

section \<open>Target trees\<close>

text \<open>
  The target tree is an \<^verbatim>\<open>ete3\<close> tree, a library outside the sources. A tree has a name,
  the attributes set on it (\<^verbatim>\<open>species\<close>, \<^verbatim>\<open>evoltype\<close>, ...) and its children in order.
\<close>

datatype pyval = PyNone | PyStr string | PyInt int

datatype tree = Tree (t_name: string) (t_attrs: "(string \<times> pyval) list") (t_children: "tree list")

text \<open>
  A node of a target tree is an object with a parent: the subtree below it, the node
  above it (\<^verbatim>\<open>up\<close>, \<open>None\<close> at the root) and its position among the children of that
  node. Two nodes are the same object exactly when they are equal.
\<close>

datatype tnode = TreeNode (subtree: tree) (up: "tnode option") (pos: nat)

definition tree_root :: "tree \<Rightarrow> tnode" where
  "tree_root t = TreeNode t None 0"

definition node_name :: "tnode \<Rightarrow> string" where
  "node_name n = t_name (subtree n)"

fun children_from :: "tnode \<Rightarrow> nat \<Rightarrow> tree list \<Rightarrow> tnode list" where
  "children_from n i [] = []"
| "children_from n i (c # cs) = TreeNode c (Some n) i # children_from n (Suc i) cs"

text \<open>\<^verbatim>\<open>node.children\<close>\<close>

definition node_children :: "tnode \<Rightarrow> tnode list" where
  "node_children n = children_from n 0 (t_children (subtree n))"

text \<open>\<^verbatim>\<open>node.is_leaf()\<close>, \<^verbatim>\<open>node.is_root()\<close>, \<^verbatim>\<open>node.get_sisters()\<close>\<close>

definition node_is_leaf :: "tnode \<Rightarrow> bool" where
  "node_is_leaf n = (t_children (subtree n) = [])"

definition node_is_root :: "tnode \<Rightarrow> bool" where
  "node_is_root n = (up n = None)"

definition get_sisters :: "tnode \<Rightarrow> tnode list" where
  "get_sisters n =
     (case up n of None \<Rightarrow> [] | Some parent \<Rightarrow> filter (\<lambda>ch. ch \<noteq> n) (node_children parent))"


text \<open>The number of nodes of a tree, and its height: the measures of the traversals.\<close>

fun tsize :: "tree \<Rightarrow> nat" where
  "tsize (Tree n a cs) = Suc (sum_list (map tsize cs))"

fun height :: "tree \<Rightarrow> nat" where
  "height (Tree n a cs) = Suc (foldr (\<lambda>c m. max (height c) m) cs 0)"

lemma subtree_children_from:
  "c \<in> set (children_from n i cs) \<Longrightarrow> subtree c \<in> set cs"
  by (induction cs arbitrary: i) auto

lemma tsize_children_from:
  "sum_list (map (\<lambda>c. tsize (subtree c)) (children_from n i cs)) = sum_list (map tsize cs)"
  by (induction cs arbitrary: i) auto

lemma tsize_child: "c \<in> set (node_children n) \<Longrightarrow> tsize (subtree c) < tsize (subtree n)"
proof -
  assume "c \<in> set (node_children n)"
  then have "subtree c \<in> set (t_children (subtree n))"
    by (simp add: node_children_def subtree_children_from)
  then have "tsize (subtree c) \<le> sum_list (map tsize (t_children (subtree n)))"
    by (simp add: member_le_sum_list)
  then show ?thesis by (cases "subtree n") simp
qed

text \<open>
  \<^verbatim>\<open>node.traverse(strategy)\<close> of \<^verbatim>\<open>ete3\<close>: the node itself and every node below it, in
  preorder, in postorder, or level by level from a queue (the default).
\<close>

datatype strategy = Preorder | Levelorder | Postorder

function preorder :: "tnode \<Rightarrow> tnode list" where
  "preorder n = n # concat (map preorder (node_children n))"
  by pat_completeness auto
termination
  by (relation "measure (\<lambda>n. tsize (subtree n))") (simp_all add: tsize_child)

function postorder :: "tnode \<Rightarrow> tnode list" where
  "postorder n = concat (map postorder (node_children n)) @ [n]"
  by pat_completeness auto
termination
  by (relation "measure (\<lambda>n. tsize (subtree n))") (simp_all add: tsize_child)

function levelorder_queue :: "tnode list \<Rightarrow> tnode list" where
  "levelorder_queue [] = []"
| "levelorder_queue (n # tovisit) = n # levelorder_queue (tovisit @ node_children n)"
  by pat_completeness auto
termination
proof (relation "measure (\<lambda>q. sum_list (map (\<lambda>c. tsize (subtree c)) q))")
  fix n tovisit
  have "sum_list (map (\<lambda>c. tsize (subtree c)) (node_children n)) < tsize (subtree n)"
    by (cases "subtree n") (simp add: node_children_def tsize_children_from)
  then show "(tovisit @ node_children n, n # tovisit)
      \<in> measure (\<lambda>q. sum_list (map (\<lambda>c. tsize (subtree c)) q))"
    by simp
qed simp

definition levelorder :: "tnode \<Rightarrow> tnode list" where
  "levelorder n = levelorder_queue [n]"

definition traverse :: "tnode \<Rightarrow> strategy \<Rightarrow> tnode list" where
  "traverse n st =
     (case st of Preorder \<Rightarrow> preorder n | Levelorder \<Rightarrow> levelorder n | Postorder \<Rightarrow> postorder n)"

text \<open>\<^verbatim>\<open>itertools.permutations(xs)\<close>: every ordering of \<open>xs\<close>, in the lexicographic order of
  the positions.\<close>

function permutations :: "'a list \<Rightarrow> 'a list list" where
  "permutations xs =
     (if xs = [] then [[]]
      else concat (map (\<lambda>i. map ((#) (xs ! i)) (permutations (take i xs @ drop (Suc i) xs)))
                       [0..<length xs]))"
  by pat_completeness auto
termination
  by (relation "measure length") auto

section \<open>Pattern objects\<close>

text \<open>
  \<^verbatim>\<open>TreePatternCache(tree)\<close> is fixed by the tree it was built from; its two dictionaries
  are functions of that tree (see the section on the cache).
\<close>

datatype TreePatternCache = TreePatternCache (cached_tree: tnode)

text \<open>
  A \<^verbatim>\<open>PatternSyntax\<close> object: which helper functions it offers (a custom syntax class has
  its own; the number only tells them apart) and its attribute \<^verbatim>\<open>cache\<close>.
\<close>

record syntax_obj =
  syn_helpers :: nat
  syn_cache :: "TreePatternCache option"

text \<open>
  A node of a pattern: its name, the attribute \<^verbatim>\<open>controller\<close> (\<open>None\<close> until
  \<^verbatim>\<open>set_controller\<close> has run), its syntax object and its children.
\<close>

datatype pattern =
  TreePattern (p_name: string) (p_controller: "controller option") (p_syntax: syntax_obj)
    (p_children: "pattern list")

text \<open>
  The methods of \<^verbatim>\<open>TreePattern\<close> mutate pattern nodes, and \<^verbatim>\<open>find_match\<close> works on a
  copy so that the pattern it was called on stays as it is. The pattern objects therefore
  live in a store: a list of pattern trees. A reference to a node is the index of its tree
  in the store and the path from the root of that tree to the node; \<^verbatim>\<open>self.up\<close> and
  \<^verbatim>\<open>self.children[i]\<close> shorten and extend the path.
\<close>

type_synonym ref = "nat \<times> nat list"
type_synonym heap = "pattern list"

primrec node_at :: "nat list \<Rightarrow> pattern \<Rightarrow> pattern option" where
  "node_at [] p = Some p"
| "node_at (i # path) p =
     (if i < length (p_children p) then node_at path (p_children p ! i) else None)"

primrec update_at :: "nat list \<Rightarrow> (pattern \<Rightarrow> pattern) \<Rightarrow> pattern \<Rightarrow> pattern" where
  "update_at [] f p = f p"
| "update_at (i # path) f p =
     (if i < length (p_children p)
      then TreePattern (p_name p) (p_controller p) (p_syntax p)
             ((p_children p)[i := update_at path f (p_children p ! i)])
      else p)"

definition deref :: "heap \<Rightarrow> ref \<Rightarrow> pattern option" where
  "deref h r = (if fst r < length h then node_at (snd r) (h ! fst r) else None)"

definition update_ref :: "ref \<Rightarrow> (pattern \<Rightarrow> pattern) \<Rightarrow> heap \<Rightarrow> heap" where
  "update_ref r f h = (if fst r < length h then h[fst r := update_at (snd r) f (h ! fst r)] else h)"

text \<open>\<^verbatim>\<open>self.children\<close>, \<^verbatim>\<open>self.children[i]\<close>, \<^verbatim>\<open>self.up\<close>, \<^verbatim>\<open>self.is_leaf()\<close>,
  \<^verbatim>\<open>self.get_tree_root()\<close>\<close>

definition n_children :: "heap \<Rightarrow> ref \<Rightarrow> nat" where
  "n_children h r = (case deref h r of None \<Rightarrow> 0 | Some p \<Rightarrow> length (p_children p))"

definition child :: "ref \<Rightarrow> nat \<Rightarrow> ref" where
  "child r i = (fst r, snd r @ [i])"

definition up_ref :: "ref \<Rightarrow> ref option" where
  "up_ref r = (if snd r = [] then None else Some (fst r, butlast (snd r)))"

definition is_leaf :: "heap \<Rightarrow> ref \<Rightarrow> bool" where
  "is_leaf h r = (n_children h r = 0)"

definition get_tree_root :: "ref \<Rightarrow> ref" where
  "get_tree_root r = (fst r, [])"

text \<open>Reading \<^verbatim>\<open>self.controller\<close> raises \<^verbatim>\<open>AttributeError\<close> while the attribute does not
  exist.\<close>

definition get_controller :: "heap \<Rightarrow> ref \<Rightarrow> pyerr + controller" where
  "get_controller h r =
     (case deref h r of
        None \<Rightarrow> Inl AttributeError
      | Some p \<Rightarrow> (case p_controller p of None \<Rightarrow> Inl AttributeError | Some c \<Rightarrow> Inr c))"

text \<open>\<^verbatim>\<open>self.controller["skipped"] += d\<close> and \<^verbatim>\<open>self.syntax.cache = cache\<close>\<close>

definition add_skipped :: "ref \<Rightarrow> int \<Rightarrow> heap \<Rightarrow> heap" where
  "add_skipped r d h =
     update_ref r (\<lambda>p. TreePattern (p_name p)
                          (map_option (\<lambda>c. c\<lparr>skipped := skipped c + d\<rparr>) (p_controller p))
                          (p_syntax p) (p_children p)) h"

definition set_cache :: "ref \<Rightarrow> TreePatternCache option \<Rightarrow> heap \<Rightarrow> heap" where
  "set_cache r cache h =
     update_ref r (\<lambda>p. TreePattern (p_name p) (p_controller p)
                          ((p_syntax p)\<lparr>syn_cache := cache\<rparr>) (p_children p)) h"

section \<open>The constraint evaluator\<close>

text \<open>
  A constraint is Python source, run by \<^verbatim>\<open>eval\<close> in a scope that holds the helper
  functions of a syntax object and the target node under a reserved name. The three
  expressions that \<^verbatim>\<open>is_local_match\<close> and \<^verbatim>\<open>parse_node_name\<close> write themselves are
  interpreted here, and so is a name test whose text ends the string literal too early;
  what Python does with any other source text is the parameter \<open>ev\<close> (the result of the
  expression, or the exception it raises). The model covers expressions whose result is a
  \<^verbatim>\<open>bool\<close>.
\<close>

type_synonym evaluator = "syntax_obj \<Rightarrow> (string \<times> tnode) list \<Rightarrow> string \<Rightarrow> pyerr + bool"

definition plain_char :: "char \<Rightarrow> bool" where
  "plain_char c = (let n = of_char c :: nat in 32 \<le> n \<and> n \<le> 126 \<and> n \<noteq> 34 \<and> n \<noteq> 92)"

text \<open>The text \<open>s\<close> of a source \<^verbatim>\<open>__target_node.name == "s"\<close>, for \<open>s\<close> free of quotes and
  backslashes.\<close>

definition name_literal :: "string \<Rightarrow> string option" where
  \<open>name_literal src =
     (let r = drop (length ''__target_node.name == "'') src in
      if startswith src ''__target_node.name == "'' \<and> r \<noteq> [] \<and> last r = CHR 0x22
         \<and> list_all plain_char (butlast r)
      then Some (butlast r) else None)\<close>

text \<open>A source \<^verbatim>\<open>__target_node.name == "s"\<close> whose text \<open>s\<close> is letters and digits around one
  double quote does not parse: the literal ends at the quote of \<open>s\<close>, and the quote that
  closes the source opens a literal that the line never ends. \<^verbatim>\<open>eval\<close> raises
  \<^verbatim>\<open>SyntaxError\<close>.\<close>

definition unterminated_literal :: "string \<Rightarrow> bool" where
  \<open>unterminated_literal src =
     (let r = drop (length ''__target_node.name == "'') src;
          s = butlast r;
          p = takeWhile (\<lambda>c. c \<noteq> CHR 0x22) s;
          q = drop (length p + 1) s
      in startswith src ''__target_node.name == "'' \<and> r \<noteq> [] \<and> last r = CHR 0x22
         \<and> length p < length s
         \<and> list_all (\<lambda>c. isalpha c \<or> isdigit c) p \<and> list_all (\<lambda>c. isalpha c \<or> isdigit c) q)\<close>

definition py_eval :: "evaluator \<Rightarrow> syntax_obj \<Rightarrow> (string \<times> tnode) list \<Rightarrow> string \<Rightarrow> pyerr + bool" where
  "py_eval ev syn env src =
     (case map_of env ''__target_node'' of
        None \<Rightarrow> ev syn env src
      | Some n \<Rightarrow>
          if src = ''__target_node.is_root()'' then Inr (node_is_root n)
          else if src = ''__target_node.is_leaf()'' then Inr (node_is_leaf n)
          else (case name_literal src of
                  Some s \<Rightarrow> Inr (node_name n = s)
                | None \<Rightarrow>
                    if unterminated_literal src then Inl SyntaxError else ev syn env src))"

text \<open>The loop \<^verbatim>\<open>for constraint in constraints: if constraint: st &= eval(...)\<close>\<close>

fun eval_constraints :: "evaluator \<Rightarrow> syntax_obj \<Rightarrow> (string \<times> tnode) list \<Rightarrow> string list \<Rightarrow> bool \<Rightarrow> pyerr + bool" where
  "eval_constraints ev syn env [] st = Inr st"
| "eval_constraints ev syn env (constraint # constraints) st =
     (if constraint \<noteq> [] then
        (case py_eval ev syn env constraint of
           Inl e \<Rightarrow> Inl e
         | Inr b \<Rightarrow> eval_constraints ev syn env constraints (st \<and> b))
      else eval_constraints ev syn env constraints st)"

text \<open>The list \<^verbatim>\<open>constraints\<close> that \<^verbatim>\<open>is_local_match\<close> builds from the controller and the
  name of the pattern node.\<close>

definition local_constraints :: "controller \<Rightarrow> string \<Rightarrow> string list" where
  \<open>local_constraints c name =
     (if root c = Some True then [''__target_node.is_root()''] else []) @
     (if leaf c = Some True then [''__target_node.is_leaf()''] else []) @
     [if name = [] then []
      else if str_contains ''@'' name then
        (if length name = 1 then [] else str_replace name ''@'' ''__target_node'')
      else if allow_indirect_connection c then []
      else ''__target_node.name == "'' @ name @ ''"'']\<close>

text \<open>
  \<^verbatim>\<open>TreePattern.is_local_match\<close>. A \<^verbatim>\<open>ValueError\<close>, \<^verbatim>\<open>AttributeError\<close> or
  \<^verbatim>\<open>IndexError\<close> of the evaluation is raised again as \<^verbatim>\<open>ValueError\<close>; after a
  \<^verbatim>\<open>NameError\<close> the constraints are evaluated once more with the syntax object of the root
  of the pattern, and a second \<^verbatim>\<open>NameError\<close> is raised again. (The parameter \<^verbatim>\<open>cache\<close> of
  the method is never read.)
\<close>

definition is_local_match :: "evaluator \<Rightarrow> heap \<Rightarrow> ref \<Rightarrow> tnode \<Rightarrow> pyerr + bool" where
  "is_local_match ev h self target_node =
     (case deref h self of
        None \<Rightarrow> Inl AttributeError
      | Some p \<Rightarrow>
     (case p_controller p of
        None \<Rightarrow> Inl AttributeError
      | Some c \<Rightarrow>
     (let constraint_scope = [(''__target_node'', target_node)];
          constraints = local_constraints c (p_name p)
      in
      case eval_constraints ev (p_syntax p) constraint_scope constraints True of
        Inr st \<Rightarrow> Inr st
      | Inl ValueError \<Rightarrow> Inl ValueError
      | Inl AttributeError \<Rightarrow> Inl ValueError
      | Inl IndexError \<Rightarrow> Inl ValueError
      | Inl NameError \<Rightarrow>
          (case deref h (get_tree_root self) of
             None \<Rightarrow> Inl AttributeError
           | Some rp \<Rightarrow> eval_constraints ev (p_syntax rp) constraint_scope constraints True)
      | Inl e \<Rightarrow> Inl e)))"

section \<open>The matching engine\<close>

text \<open>
  A method that mutates pattern nodes takes the store and returns it with its result: the
  value it returns or the exception it raises.
\<close>

type_synonym 'a result = "(pyerr + 'a) \<times> heap"
type_synonym matcher = "ref \<Rightarrow> tnode \<Rightarrow> heap \<Rightarrow> bool result"

text \<open>The local variables of \<^verbatim>\<open>match\<close> that its nested loops share.\<close>

record locals =
  status :: bool
  sub_status :: bool
  sub_status_count :: int
  test_children_properties :: bool
  continious_matched :: "int list"

text \<open>
  The loop \<^verbatim>\<open>while i < len(self.children)\<close> over one permutation \<open>candidate\<close> of the
  children of a target node. \<open>m\<close> is the recursive call \<^verbatim>\<open>self.children[i].match\<close>; \<open>nc\<close>
  is \<^verbatim>\<open>len(self.children)\<close>, which no method changes. \<^verbatim>\<open>candidate[j]\<close> with \<open>j\<close> past the
  end raises \<^verbatim>\<open>IndexError\<close>.
\<close>

function while_children :: "matcher \<Rightarrow> ref \<Rightarrow> nat \<Rightarrow> tnode list \<Rightarrow> nat \<Rightarrow> nat \<Rightarrow> int \<Rightarrow> locals \<Rightarrow> heap \<Rightarrow> locals result" where
  "while_children m self nc candidate i j current_matched v h =
     (if i < nc then
        if j < length candidate then
          (case m (child self i) (candidate ! j) h of
             (Inl e, h1) \<Rightarrow> (Inl e, h1)
           | (Inr st, h1) \<Rightarrow>
          (case get_controller h1 (child self i) of
             Inl e \<Rightarrow> (Inl e, h1)
           | Inr ci \<Rightarrow>
               if is_leaf h1 (child self i)
                  \<and> (allow_indirect_connection ci \<or> c_not ci) \<and> sub_status v
               then
                 (let v1 = v\<lparr>test_children_properties := True\<rparr>;
                      cm = (if st then current_matched + 1 else current_matched)
                  in
                  if j + 1 < length candidate
                  then while_children m self nc candidate i (j + 1) cm v1 h1
                  else while_children m self nc candidate (i + 1) (j + 2) 0
                         (if cm > 0
                          then v1\<lparr>continious_matched := continious_matched v1 @ [cm]\<rparr>
                          else v1) h1)
               else
                 (case get_controller h1 self of
                    Inl e \<Rightarrow> (Inl e, h1)
                  | Inr c \<Rightarrow>
                      (let st1 = (if st \<and> \<not> is_in_bounds c Low (skipped c) then False else st)
                       in
                       if \<not> st1 \<and> allow_indirect_connection c \<and> \<not> i < length candidate
                       then (Inl IndexError, h1)
                       else if \<not> st1 \<and> allow_indirect_connection c
                               \<and> length (node_children (candidate ! i)) > 0
                       then while_children m self nc candidate (i + 1) (j + 1)
                              current_matched v h1
                       else
                         (let ss = (sub_status v \<and> st1) in
                          while_children m self nc candidate (i + 1) (j + 1) current_matched
                            (v\<lparr>sub_status := ss,
                               sub_status_count :=
                                 (if ss then sub_status_count v + 1 else sub_status_count v)\<rparr>)
                            h1)))))
        else (Inl IndexError, h)
      else (Inr v, h))"
  by pat_completeness auto
termination
  by (relation "measure (\<lambda>(m, self, nc, candidate, i, j, current_matched, v, h).
                            (nc - i) + (length candidate - j))") auto

text \<open>
  The loop \<^verbatim>\<open>for candidate in permutations(node.children)\<close>, and what follows each run of
  the inner loop: go on when a child was counted, stop with \<^verbatim>\<open>status = True\<close> when every
  child matched, else \<^verbatim>\<open>status = False\<close>.
\<close>

fun for_candidates :: "matcher \<Rightarrow> ref \<Rightarrow> nat \<Rightarrow> tnode list list \<Rightarrow> locals \<Rightarrow> heap \<Rightarrow> locals result" where
  "for_candidates m self nc [] v h = (Inr v, h)"
| "for_candidates m self nc (candidate # rest) v h =
     (case while_children m self nc candidate 0 0 0 (v\<lparr>sub_status := True\<rparr>) h of
        (Inl e, h1) \<Rightarrow> (Inl e, h1)
      | (Inr v1, h1) \<Rightarrow>
          if test_children_properties v1 then for_candidates m self nc rest v1 h1
          else if sub_status v1 \<and> sub_status_count v1 > 0 then (Inr (v1\<lparr>status := True\<rparr>), h1)
          else for_candidates m self nc rest (v1\<lparr>status := False\<rparr>) h1)"

text \<open>
  The block \<^verbatim>\<open>if test_children_properties:\<close> after the permutations: the counts collected
  are tested against the bounds of the last child of the pattern node. (The \<^verbatim>\<open>print\<close> of
  the source is left out.)
\<close>

definition children_properties :: "heap \<Rightarrow> ref \<Rightarrow> nat \<Rightarrow> locals \<Rightarrow> pyerr + locals" where
  "children_properties h self nc v =
     (if test_children_properties v then
        (case get_controller h (child self (nc - 1)) of
           Inl e \<Rightarrow> Inl e
         | Inr cl \<Rightarrow>
             (let sub_sub_status0 =
                    (if length (continious_matched v) > 0
                     then fold (\<lambda>con_matches sss.
                                   sss \<or> (is_in_bounds cl Low con_matches
                                          \<and> is_in_bounds cl High con_matches))
                            (continious_matched v) False
                     else direct_connection_first cl);
                  sub_sub_status = (if c_not cl then \<not> sub_sub_status0 else sub_sub_status0)
              in Inr (v\<lparr>sub_status := sub_sub_status, status := sub_sub_status,
                        sub_status_count :=
                          (if sub_sub_status then sub_status_count v + 1
                           else sub_status_count v)\<rparr>)))
      else Inr v)"

text \<open>The loop \<^verbatim>\<open>for node in nodes\<close>, on the value of \<^verbatim>\<open>status\<close> so far.\<close>

fun for_nodes :: "matcher \<Rightarrow> ref \<Rightarrow> nat \<Rightarrow> tnode list \<Rightarrow> bool \<Rightarrow> heap \<Rightarrow> bool result" where
  "for_nodes m self nc [] st h = (Inr st, h)"
| "for_nodes m self nc (node # nodes) st h =
     (if length (node_children node) \<ge> nc then
        (case for_candidates m self nc (permutations (node_children node))
                \<lparr>status = st, sub_status = True, sub_status_count = 0,
                  test_children_properties = False, continious_matched = []\<rparr> h of
           (Inl e, h1) \<Rightarrow> (Inl e, h1)
         | (Inr v, h1) \<Rightarrow>
             (case children_properties h1 self nc v of
                Inl e \<Rightarrow> (Inl e, h1)
              | Inr v1 \<Rightarrow>
                  if status v1 \<and> sub_status_count v1 > 0 then (Inr (status v1), h1)
                  else for_nodes m self nc nodes (status v1) h1))
      else for_nodes m self nc nodes st h)"

text \<open>
  The block \<^verbatim>\<open>if status and self.children:\<close> of \<^verbatim>\<open>match\<close>: where the target node has
  fewer children than the pattern node, a pattern node that allows an indirect connection
  goes on at the first node below (level by level) with enough children, and at its
  sisters.
\<close>

definition match_children :: "matcher \<Rightarrow> ref \<Rightarrow> tnode \<Rightarrow> heap \<Rightarrow> bool result" where
  "match_children m self node h =
     (let nc = n_children h self in
      if length (node_children node) < nc then
        (case get_controller h self of
           Inl e \<Rightarrow> (Inl e, h)
         | Inr c \<Rightarrow>
             if allow_indirect_connection c then
               (case find (\<lambda>skip_to_node. length (node_children skip_to_node) \<ge> nc)
                       (levelorder node) of
                  None \<Rightarrow> for_nodes m self nc [node] False h
                | Some skip_to_node \<Rightarrow>
                    for_nodes m self nc (skip_to_node # get_sisters skip_to_node) True h)
             else for_nodes m self nc [node] False h)
      else for_nodes m self nc [node] True h)"

text \<open>
  The block \<^verbatim>\<open>if not status: ... elif ...\<close> of \<^verbatim>\<open>match\<close> that follows the local test.
  After a failed test the evaluation moves to the parent of the pattern node, when the
  parent allows the indirect connection and one more skipped node is within its upper
  bound: \<open>status\<close> becomes true, \<open>self\<close> becomes the parent and its counter \<open>skipped\<close>
  goes up. After a test that holds, a node that allows the indirect connection and has
  skipped nothing yet counts one. The result is \<open>status\<close>, \<open>self\<close> and the store.
\<close>

definition skip_resolution :: "heap \<Rightarrow> ref \<Rightarrow> bool \<Rightarrow> pyerr + (bool \<times> ref \<times> heap)" where
  "skip_resolution h self st =
     (case get_controller h self of
        Inl e \<Rightarrow> Inl e
      | Inr c \<Rightarrow>
          if \<not> st then
            if allow_indirect_connection c \<and> is_leaf h self then Inr (st, self, h)
            else (case up_ref self of
                    None \<Rightarrow> Inr (st, self, h)
                  | Some parent \<Rightarrow>
                      (case get_controller h parent of
                         Inl e \<Rightarrow> Inl e
                       | Inr cu \<Rightarrow>
                           if allow_indirect_connection cu
                              \<and> is_in_bounds cu High (skipped cu + 1)
                           then Inr (True, parent, add_skipped parent 1 h)
                           else Inr (st, self, h)))
          else if allow_indirect_connection c \<and> skipped c = 0
          then Inr (st, self, add_skipped self 1 h)
          else Inr (st, self, h))"

text \<open>
  \<^verbatim>\<open>TreePattern.match\<close>. The first argument bounds the depth of the recursion: every
  recursive call is on a node below \<open>node\<close>, and \<^verbatim>\<open>find_match\<close> starts with the height of
  the node. In the source the test \<^verbatim>\<open>not self.is_leaf and self.controller["not"]\<close>
  reads the bound method \<^verbatim>\<open>is_leaf\<close> without calling it: it is never true, and \<open>status\<close>
  is not negated.
\<close>

fun match :: "evaluator \<Rightarrow> nat \<Rightarrow> TreePatternCache option \<Rightarrow> ref \<Rightarrow> tnode \<Rightarrow> heap \<Rightarrow> bool result" where
  "match ev 0 cache self0 node h0 = (Inl OutOfFuel, h0)"
| "match ev (Suc fuel) cache self0 node h0 =
     (let h1 = set_cache self0 cache h0 in
      case get_controller h1 self0 of
        Inl e \<Rightarrow> (Inl e, h1)
      | Inr c0 \<Rightarrow>
     (let self1 = (if direct_connection_first c0 \<and> \<not> is_leaf h1 self0
                   then child self0 0 else self0)
      in
      case is_local_match ev h1 self1 node of
        Inl e \<Rightarrow> (Inl e, h1)
      | Inr status1 \<Rightarrow>
     (case skip_resolution h1 self1 status1 of
        Inl e \<Rightarrow> (Inl e, h1)
      | Inr (status2, self2, h2) \<Rightarrow>
     (case (if status2 \<and> n_children h2 self2 > 0
            then match_children (\<lambda>r t h. match ev fuel cache r t h) self2 node h2
            else (Inr status2, h2)) of
        (Inl e, h3) \<Rightarrow> (Inl e, h3)
      | (Inr status3, h3) \<Rightarrow>
     (case get_controller h3 self2 of
        Inl e \<Rightarrow> (Inl e, h3)
      | Inr c2 \<Rightarrow>
          if \<not> status3 \<and> allow_indirect_connection c2
          then (Inr status3, add_skipped self2 (- 1) h3)
          else (Inr status3, h3))))))"

declare while_children.simps [simp del]
declare permutations.simps [simp del]
declare str_replace.simps [simp del]

section \<open>Searching a tree\<close>

text \<open>\<^verbatim>\<open>TreePattern.set_controller\<close> on a node of the store: the node gets its compiled name
  and its controller, and the method returns \<open>single_match\<close>. When the method raises, the
  node keeps the name assigned last and gets no controller.\<close>

definition set_controller :: "symbols \<Rightarrow> ref \<Rightarrow> heap \<Rightarrow> bool result" where
  "set_controller sy r h =
     (case deref h r of
        None \<Rightarrow> (Inl AttributeError, h)
      | Some p \<Rightarrow>
          (case compile_name sy (p_name p) of
             Inl (e, name) \<Rightarrow>
               (Inl e,
                update_ref r (\<lambda>p. TreePattern name (p_controller p) (p_syntax p) (p_children p)) h)
           | Inr (name, c) \<Rightarrow>
               (Inr (single_match c),
                update_ref r (\<lambda>p. TreePattern name (Some c) (p_syntax p) (p_children p)) h)))"

text \<open>\<^verbatim>\<open>self.traverse()\<close> on a pattern: the paths below a node, level by level.\<close>

fun psize :: "pattern \<Rightarrow> nat" where
  "psize (TreePattern n c s cs) = Suc (sum_list (map psize cs))"

lemma sum_list_psize_nth:
  "sum_list (map (\<lambda>i. psize (cs ! i)) [0..<length cs]) = sum_list (map psize cs)"
proof -
  have "map (\<lambda>i. psize (cs ! i)) [0..<length cs] = map psize (map ((!) cs) [0..<length cs])"
    by simp
  then show ?thesis by (simp only: map_nth)
qed

function levelorder_paths :: "(nat list \<times> pattern) list \<Rightarrow> nat list list" where
  "levelorder_paths [] = []"
| "levelorder_paths ((path, p) # tovisit) =
     path # levelorder_paths
              (tovisit @ map (\<lambda>i. (path @ [i], p_children p ! i)) [0..<length (p_children p)])"
  by pat_completeness auto
termination
proof (relation "measure (\<lambda>q. sum_list (map (\<lambda>x. psize (snd x)) q))")
  fix path p tovisit
  have "sum_list (map (\<lambda>i. psize (p_children p ! i)) [0..<length (p_children p)]) < psize p"
    by (cases p) (simp add: sum_list_psize_nth)
  then show "(tovisit @ map (\<lambda>i. (path @ [i], p_children p ! i)) [0..<length (p_children p)],
              (path, p) # tovisit) \<in> measure (\<lambda>q. sum_list (map (\<lambda>x. psize (snd x)) q))"
    by (simp add: comp_def)
qed simp

definition traverse_pattern :: "heap \<Rightarrow> ref \<Rightarrow> ref list" where
  "traverse_pattern h r =
     (case deref h r of
        None \<Rightarrow> []
      | Some p \<Rightarrow> map (\<lambda>path. (fst r, snd r @ path)) (levelorder_paths [([], p)]))"

text \<open>
  \<^verbatim>\<open>copy.deepcopy(self)\<close>: the whole pattern tree that holds \<open>self\<close> is copied to a new
  place in the store, and the copy of \<open>self\<close> is the node at the same path there.
\<close>

definition deepcopy :: "heap \<Rightarrow> ref \<Rightarrow> heap \<times> ref" where
  "deepcopy h r = (if fst r < length h then (h @ [h ! fst r], (length h, snd r)) else (h, r))"

text \<open>The loop \<^verbatim>\<open>for node in one_use_pattern.traverse(): single_match_pattern |= node.set_controller()\<close>\<close>

fun set_controllers :: "symbols \<Rightarrow> ref list \<Rightarrow> bool \<Rightarrow> heap \<Rightarrow> bool result" where
  "set_controllers sy [] single_match_pattern h = (Inr single_match_pattern, h)"
| "set_controllers sy (node # nodes) single_match_pattern h =
     (case set_controller sy node h of
        (Inl e, h1) \<Rightarrow> (Inl e, h1)
      | (Inr b, h1) \<Rightarrow> set_controllers sy nodes (single_match_pattern \<or> b) h1)"

text \<open>
  \<^verbatim>\<open>TreePattern.find_extreme_case\<close>. The pattern node read is the last one of the
  traversal whose controller has \<open>single_match\<close>; \<^verbatim>\<open>match_list[0]\<close> raises
  \<^verbatim>\<open>IndexError\<close> on an empty list. The handler of \<^verbatim>\<open>AttributeError\<close> and \<^verbatim>\<open>IndexError\<close>
  formats its message with a name, \<^verbatim>\<open>target_node\<close>, that this method does not define:
  what it raises is \<^verbatim>\<open>NameError\<close>.
\<close>

fun last_single_match :: "heap \<Rightarrow> ref list \<Rightarrow> ref option \<Rightarrow> pyerr + ref option" where
  "last_single_match h [] pattern = Inr pattern"
| "last_single_match h (node # nodes) pattern =
     (case get_controller h node of
        Inl e \<Rightarrow> Inl e
      | Inr c \<Rightarrow> last_single_match h nodes (if single_match c then Some node else pattern))"

fun extreme_loop :: "symbols \<Rightarrow> evaluator \<Rightarrow> heap \<Rightarrow> ref \<Rightarrow> ref option \<Rightarrow> tnode list \<Rightarrow> tnode \<Rightarrow> pyerr + tnode" where
  "extreme_loop sy ev h self pattern [] correct_node = Inr correct_node"
| "extreme_loop sy ev h self pattern (node # match_list) correct_node =
     (case pattern of
        None \<Rightarrow> Inl NameError
      | Some pat \<Rightarrow>
     (case get_controller h pat of
        Inl e \<Rightarrow> Inl e
      | Inr pc \<Rightarrow>
     (case single_match_contstraint pc of
        None \<Rightarrow> Inl KeyError
      | Some constraint0 \<Rightarrow>
     (case deref h self of
        None \<Rightarrow> Inl AttributeError
      | Some sp \<Rightarrow>
     (let constraint_scope = [(''__target_node'', node), (''__correct_node'', correct_node)];
          constraint = str_replace (str_replace constraint0 ''@'' ''__target_node'')
                         (set_all_nodes sy) ''__correct_node''
      in
      case py_eval ev (p_syntax sp) constraint_scope constraint of
        Inr st \<Rightarrow> extreme_loop sy ev h self pattern match_list (if st then node else correct_node)
      | Inl ValueError \<Rightarrow> Inl ValueError
      | Inl AttributeError \<Rightarrow> Inl NameError
      | Inl IndexError \<Rightarrow> Inl NameError
      | Inl NameError \<Rightarrow>
          (case deref h (get_tree_root self) of
             None \<Rightarrow> Inl AttributeError
           | Some rp \<Rightarrow>
               (case py_eval ev (p_syntax rp) constraint_scope constraint of
                  Inr st \<Rightarrow>
                    extreme_loop sy ev h self pattern match_list
                      (if st then node else correct_node)
                | Inl e \<Rightarrow> Inl e))
      | Inl e \<Rightarrow> Inl e)))))"

definition find_extreme_case :: "symbols \<Rightarrow> evaluator \<Rightarrow> heap \<Rightarrow> ref \<Rightarrow> tnode list \<Rightarrow> pyerr + tnode" where
  "find_extreme_case sy ev h self match_list =
     (case last_single_match h (traverse_pattern h self) None of
        Inl e \<Rightarrow> Inl e
      | Inr pattern \<Rightarrow>
          (case match_list of
             [] \<Rightarrow> Inl IndexError
           | correct_node # _ \<Rightarrow> extreme_loop sy ev h self pattern match_list correct_node))"

text \<open>
  \<^verbatim>\<open>find_match\<close> is a generator: it yields nodes one after the other and then ends, by
  returning or by raising. Its outcome is the list of the nodes it yields when it is
  consumed to the end, the exception that ended it (if any), and the store.

  The loop of a single-match pattern collects the nodes that match:
\<close>

type_synonym generated = "(tnode list \<times> pyerr option) \<times> heap"

fun collect_matches :: "evaluator \<Rightarrow> TreePatternCache option \<Rightarrow> ref \<Rightarrow> tnode list \<Rightarrow> tnode list \<Rightarrow> heap \<Rightarrow> (tnode list) result" where
  "collect_matches ev cache one_use_pattern [] matched_nodes h = (Inr matched_nodes, h)"
| "collect_matches ev cache one_use_pattern (node # nodes) matched_nodes h =
     (case match ev (height (subtree node)) cache one_use_pattern node h of
        (Inl e, h1) \<Rightarrow> (Inl e, h1)
      | (Inr b, h1) \<Rightarrow>
          collect_matches ev cache one_use_pattern nodes
            (if b then matched_nodes @ [node] else matched_nodes) h1)"

text \<open>The loop of an ordinary pattern yields each node that matches and stops once
  \<^verbatim>\<open>maxhits\<close> is reached: the test follows the \<^verbatim>\<open>yield\<close>, at the end of each round.\<close>

fun search_loop :: "evaluator \<Rightarrow> TreePatternCache option \<Rightarrow> ref \<Rightarrow> int option \<Rightarrow> tnode list \<Rightarrow> int \<Rightarrow> heap \<Rightarrow> generated" where
  "search_loop ev cache one_use_pattern maxhits [] num_hits h = (([], None), h)"
| "search_loop ev cache one_use_pattern maxhits (node # nodes) num_hits h =
     (case match ev (height (subtree node)) cache one_use_pattern node h of
        (Inl e, h1) \<Rightarrow> (([], Some e), h1)
      | (Inr b, h1) \<Rightarrow>
          (let num_hits1 = (if b then num_hits + 1 else num_hits);
               yielded = (if b then [node] else [])
           in
           if (case maxhits of None \<Rightarrow> False | Some k \<Rightarrow> num_hits1 \<ge> k)
           then ((yielded, None), h1)
           else (case search_loop ev cache one_use_pattern maxhits nodes num_hits1 h1 of
                   ((later, err), h2) \<Rightarrow> ((yielded @ later, err), h2))))"

text \<open>\<^verbatim>\<open>TreePattern.find_match\<close>, called on the pattern node \<open>self\<close> of the store \<open>h\<close>.\<close>

definition find_match :: "symbols \<Rightarrow> evaluator \<Rightarrow> heap \<Rightarrow> ref \<Rightarrow> tnode \<Rightarrow> int option \<Rightarrow> TreePatternCache option \<Rightarrow> strategy \<Rightarrow> generated" where
  "find_match sy ev h self tree maxhits cache target_traversal =
     (case deepcopy h self of
        (h1, one_use_pattern) \<Rightarrow>
     (case set_controllers sy (traverse_pattern h1 one_use_pattern) False h1 of
        (Inl e, h2) \<Rightarrow> (([], Some e), h2)
      | (Inr single_match_pattern, h2) \<Rightarrow>
          if single_match_pattern then
            (case collect_matches ev cache one_use_pattern (traverse tree target_traversal) [] h2 of
               (Inl e, h3) \<Rightarrow> (([], Some e), h3)
             | (Inr matched_nodes, h3) \<Rightarrow>
                 (case find_extreme_case sy ev h3 one_use_pattern matched_nodes of
                    Inl e \<Rightarrow> (([], Some e), h3)
                  | Inr n \<Rightarrow> (([n], None), h3)))
          else search_loop ev cache one_use_pattern maxhits (traverse tree target_traversal) 0 h2))"

section \<open>Quantifier markers and their descriptors\<close>

text \<open>
  A label compiles to a name and a controller when \<^verbatim>\<open>set_controller\<close> computes them from
  the label without raising, and stores them in whatever node of the store carries the
  label.
\<close>

definition compiles_to :: "symbols \<Rightarrow> string \<Rightarrow> string \<Rightarrow> controller \<Rightarrow> bool" where
  "compiles_to sy label name c =
     (compile_name sy label = Inr (name, c)
      \<and> (\<forall>h r p. deref h r = Some p \<and> p_name p = label \<longrightarrow>
             set_controller sy r h =
               (Inr (single_match c),
                update_ref r (\<lambda>q. TreePattern name (Some c) (p_syntax q) (p_children q)) h)))"

lemma compiles_toI: "compile_name sy label = Inr (name, c) \<Longrightarrow> compiles_to sy label name c"
  by (simp add: compiles_to_def set_controller_def)

declare parse_metacharacters_loop.simps [simp del]

lemma startswith_single [simp]: "startswith s [c] = (s \<noteq> [] \<and> hd s = c)"
  by (cases s) auto



























definition PatternSyntax :: syntax_obj where
  "PatternSyntax = \<lparr>syn_helpers = 0, syn_cache = None\<rparr>"

text \<open>The symbol tables used in the examples, and a scope with no helper functions.\<close>

definition example_symbols :: symbols where
  "example_symbols = std_symbols ''[any]'' ''[all]'' ''[best]''"

definition no_helpers :: evaluator where
  "no_helpers = (\<lambda>syn env src. Inl NameError)"






section \<open>Local matches of quantified nodes\<close>








section \<open>The search works on a copy\<close>

text \<open>
  Two stores are the same except at \<open>L\<close> when they have the same length and the same
  pattern tree at every other index. A matcher frames \<open>L\<close> when, called on any node of the
  tree at \<open>L\<close>, it leaves every other tree as it is.
\<close>

definition same_except :: "nat \<Rightarrow> heap \<Rightarrow> heap \<Rightarrow> bool" where
  "same_except L h h' = (length h' = length h \<and> (\<forall>j. j \<noteq> L \<longrightarrow> h' ! j = h ! j))"

definition frames :: "nat \<Rightarrow> matcher \<Rightarrow> bool" where
  "frames L m = (\<forall>r t h res h'. fst r = L \<longrightarrow> m r t h = (res, h') \<longrightarrow> same_except L h h')"

lemma same_except_refl [simp]: "same_except L h h"
  by (simp add: same_except_def)

lemma same_except_trans: "same_except L h h1 \<Longrightarrow> same_except L h1 h2 \<Longrightarrow> same_except L h h2"
  by (simp add: same_except_def)

lemma same_except_update_ref [simp]: "same_except (fst r) h (update_ref r f h)"
  by (simp add: same_except_def update_ref_def)

lemma same_except_add_skipped: "fst r = L \<Longrightarrow> same_except L h (add_skipped r d h)"
  unfolding add_skipped_def using same_except_update_ref by blast

lemma same_except_set_cache: "fst r = L \<Longrightarrow> same_except L h (set_cache r c h)"
  unfolding set_cache_def using same_except_update_ref by blast

lemma fst_child [simp]: "fst (child r i) = fst r"
  by (simp add: child_def)

lemma fst_up_ref: "up_ref r = Some u \<Longrightarrow> fst u = fst r"
  by (auto simp add: up_ref_def split: if_splits)

lemma framesD: "frames L m \<Longrightarrow> fst r = L \<Longrightarrow> m r t h = (res, h') \<Longrightarrow> same_except L h h'"
  unfolding frames_def by blast

lemma while_children_frame:
  "frames L m \<Longrightarrow> fst self = L \<Longrightarrow>
   while_children m self nc candidate i j cm v h = (res, h') \<Longrightarrow> same_except L h h'"
proof (induction "(nc - i) + (length candidate - j)" arbitrary: i j cm v h res h' rule: less_induct)
  case less
  have step: "m (child self r) t h0 = (res0, h1) \<Longrightarrow> same_except L h0 h1" for r t h0 res0 h1
    by (rule framesD[OF less.prems(1), of "child self r"]) (simp_all add: less.prems(2))
  have rec: "same_except L h h'"
    if "same_except L h h1" and "while_children m self nc candidate i' j' cm' v' h1 = (res, h')"
      and "(nc - i') + (length candidate - j') < (nc - i) + (length candidate - j)"
    for h1 i' j' cm' v'
    using same_except_trans[OF that(1) less.hyps[OF that(3) less.prems(1,2) that(2)]] .
  from less.prems(3) show ?case
    apply (subst (asm) while_children.simps)
    apply (auto split: if_splits prod.splits sum.splits simp: Let_def dest!: step)
    apply (erule rec, assumption, arith)+
    done
qed



lemma for_candidates_frame:
  "frames L m \<Longrightarrow> fst self = L \<Longrightarrow>
   for_candidates m self nc cands v h = (res, h') \<Longrightarrow> same_except L h h'"
proof (induction cands arbitrary: v h res h')
  case Nil
  then show ?case by simp
next
  case (Cons candidate rest)
  show ?case
  proof (cases "while_children m self nc candidate 0 0 0 (v\<lparr>sub_status := True\<rparr>) h")
    case (Pair r1 h1)
    have f1: "same_except L h h1"
      using while_children_frame[OF Cons.prems(1,2) Pair] .
    have f2: "same_except L h h'" if "for_candidates m self nc rest v' h1 = (res, h')" for v'
      using same_except_trans[OF f1 Cons.IH[OF Cons.prems(1,2) that]] .
    show ?thesis
    proof (cases r1)
      case (Inl e)
      with Cons.prems(3) Pair f1 show ?thesis by simp
    next
      case (Inr v1)
      with Cons.prems(3) Pair f1 f2 show ?thesis by (auto split: if_splits)
    qed
  qed
qed

lemma for_nodes_frame:
  "frames L m \<Longrightarrow> fst self = L \<Longrightarrow>
   for_nodes m self nc nodes st h = (res, h') \<Longrightarrow> same_except L h h'"
proof (induction nodes arbitrary: st h res h')
  case Nil
  then show ?case by simp
next
  case (Cons node nodes)
  show ?case
  proof (cases "length (node_children node) \<ge> nc")
    case False
    with Cons show ?thesis by simp
  next
    case True
    show ?thesis
    proof (cases "for_candidates m self nc (permutations (node_children node))
                \<lparr>status = st, sub_status = True, sub_status_count = 0,
                  test_children_properties = False, continious_matched = []\<rparr> h")
      case (Pair r1 h1)
      have f1: "same_except L h h1"
        using for_candidates_frame[OF Cons.prems(1,2) Pair] .
      have f2: "same_except L h h'" if "for_nodes m self nc nodes st' h1 = (res, h')" for st'
        using same_except_trans[OF f1 Cons.IH[OF Cons.prems(1,2) that]] .
      show ?thesis
      proof (cases r1)
        case (Inl e)
        with Cons.prems(3) Pair f1 True show ?thesis by simp
      next
        case (Inr v1)
        with Cons.prems(3) Pair f1 f2 True show ?thesis
          by (auto split: if_splits sum.splits)
      qed
    qed
  qed
qed

lemma match_children_frame:
  "frames L m \<Longrightarrow> fst self = L \<Longrightarrow>
   match_children m self node h = (res, h') \<Longrightarrow> same_except L h h'"
  by (auto simp add: match_children_def Let_def simp del: for_nodes.simps
        split: if_splits sum.splits option.splits intro: for_nodes_frame)


lemma skip_resolution_frame:
  "skip_resolution h self st = Inr (st2, self2, h2) \<Longrightarrow>
   fst self2 = fst self \<and> same_except (fst self) h h2"
  by (auto simp add: skip_resolution_def same_except_add_skipped fst_up_ref
        split: sum.splits if_splits option.splits)

lemma match_frames: "frames L (\<lambda>r t h. match ev fuel cache r t h)"
proof (induction fuel)
  case 0
  then show ?case by (simp add: frames_def)
next
  case (Suc fuel)
  show ?case
    unfolding frames_def
  proof (intro allI impI)
    fix r t h res h'
    assume r: "fst r = L" and m: "match ev (Suc fuel) cache r t h = (res, h')"
    define h1 where "h1 = set_cache r cache h"
    have f1: "same_except L h h1" unfolding h1_def using r by (rule same_except_set_cache)
    show "same_except L h h'"
    proof (cases "get_controller h1 r")
      case (Inl e)
      with m f1 show ?thesis by (simp add: h1_def[symmetric])
    next
      case c0: (Inr c0)
      define self1 where "self1 = (if direct_connection_first c0 \<and> \<not> is_leaf h1 r then child r 0 else r)"
      have s1: "fst self1 = L" using r by (simp add: self1_def)
      show ?thesis
      proof (cases "is_local_match ev h1 self1 t")
        case (Inl e)
        with m f1 c0 show ?thesis by (simp add: h1_def[symmetric] self1_def[symmetric])
      next
        case st1: (Inr status1)
        show ?thesis
        proof (cases "skip_resolution h1 self1 status1")
          case (Inl e)
          with m f1 c0 st1 show ?thesis by (simp add: h1_def[symmetric] self1_def[symmetric])
        next
          case (Inr x)
          then obtain status2 self2 h2 where sr: "skip_resolution h1 self1 status1 = Inr (status2, self2, h2)"
            by (cases x) auto
          have s2: "fst self2 = L" and f2: "same_except L h1 h2"
            using skip_resolution_frame[OF sr] s1 by simp_all
          define step3 where "step3 = (if status2 \<and> n_children h2 self2 > 0
            then match_children (\<lambda>r t h. match ev fuel cache r t h) self2 t h2
            else (Inr status2, h2))"
          obtain r3 h3 where s3: "step3 = (r3, h3)" by (cases step3)
          have f3: "same_except L h2 h3"
            using s3 match_children_frame[OF Suc s2, of t h2 r3 h3]
            by (auto simp add: step3_def split: if_splits)
          have f13: "same_except L h h3"
            using same_except_trans[OF same_except_trans[OF f1 f2] f3] .
          have f4: "same_except L h (add_skipped self2 d h3)" for d
            using same_except_trans[OF f13 same_except_add_skipped[OF s2]] .
          from m c0 st1 sr s3 f13 f4 show ?thesis
            by (auto simp add: h1_def[symmetric] self1_def[symmetric] step3_def[symmetric]
                  split: sum.splits if_splits)
        qed
      qed
    qed
  qed
qed


lemma set_controller_frame:
  "fst r = L \<Longrightarrow> set_controller sy r h = (res, h') \<Longrightarrow> same_except L h h'"
  by (auto simp add: set_controller_def split: option.splits sum.splits)

lemma set_controllers_frame:
  "\<forall>r \<in> set rs. fst r = L \<Longrightarrow> set_controllers sy rs b h = (res, h') \<Longrightarrow> same_except L h h'"
proof (induction rs arbitrary: b h)
  case Nil
  then show ?case by simp
next
  case (Cons r rs)
  show ?case
  proof (cases "set_controller sy r h")
    case (Pair r1 h1)
    have f1: "same_except L h h1" using set_controller_frame[OF _ Pair] Cons.prems(1) by simp
    have f2: "same_except L h h'" if "set_controllers sy rs b' h1 = (res, h')" for b'
      using same_except_trans[OF f1 Cons.IH[OF _ that]] Cons.prems(1) by simp
    from Cons.prems(2) Pair f1 f2 show ?thesis
      by (cases r1) auto
  qed
qed

lemma traverse_pattern_fst: "r' \<in> set (traverse_pattern h r) \<Longrightarrow> fst r' = fst r"
  by (auto simp add: traverse_pattern_def split: option.splits)

lemma collect_matches_frame:
  "fst p = L \<Longrightarrow> collect_matches ev cache p nodes acc h = (res, h') \<Longrightarrow> same_except L h h'"
proof (induction nodes arbitrary: acc h)
  case Nil
  then show ?case by simp
next
  case (Cons node nodes)
  show ?case
  proof (cases "match ev (height (subtree node)) cache p node h")
    case (Pair r1 h1)
    have f1: "same_except L h h1"
      using framesD[OF match_frames Cons.prems(1) Pair] .
    have f2: "same_except L h h'" if "collect_matches ev cache p nodes acc' h1 = (res, h')" for acc'
      using same_except_trans[OF f1 Cons.IH[OF Cons.prems(1) that]] .
    from Cons.prems(2) Pair f1 f2 show ?thesis
      by (cases r1) auto
  qed
qed

lemma search_loop_frame:
  "fst p = L \<Longrightarrow> search_loop ev cache p maxhits nodes n h = (res, h') \<Longrightarrow> same_except L h h'"
proof (induction nodes arbitrary: n h res h')
  case Nil
  then show ?case by simp
next
  case (Cons node nodes)
  show ?case
  proof (cases "match ev (height (subtree node)) cache p node h")
    case (Pair r1 h1)
    have f1: "same_except L h h1"
      using framesD[OF match_frames Cons.prems(1) Pair] .
    have f2: "same_except L h h2" if "search_loop ev cache p maxhits nodes n' h1 = (res', h2)" for n' res' h2
      using same_except_trans[OF f1 Cons.IH[OF Cons.prems(1) that]] .
    from Cons.prems(2) Pair f1 f2 show ?thesis
      by (cases r1) (auto simp add: Let_def split: if_splits prod.splits)
  qed
qed

lemma find_match_frame:
  "same_except (if fst self < length h then length h else fst self)
     (fst (deepcopy h self)) (snd (find_match sy ev h self tree maxhits cache st))"
proof -
  obtain h1 p where d: "deepcopy h self = (h1, p)" by (cases "deepcopy h self")
  define L where "L = (if fst self < length h then length h else fst self)"
  have p: "fst p = L" using d by (auto simp add: deepcopy_def L_def split: if_splits)
  obtain r2 h2 where sc: "set_controllers sy (traverse_pattern h1 p) False h1 = (r2, h2)"
    by (cases "set_controllers sy (traverse_pattern h1 p) False h1")
  have f1: "same_except L h1 h2"
    using set_controllers_frame[OF _ sc] traverse_pattern_fst[of _ h1 p] p by auto
  obtain r3 h3 where cm: "collect_matches ev cache p (traverse tree st) [] h2 = (r3, h3)"
    by (cases "collect_matches ev cache p (traverse tree st) [] h2")
  have f2: "same_except L h1 h3"
    using same_except_trans[OF f1 collect_matches_frame[OF p cm]] .
  obtain r4 h4 where sl: "search_loop ev cache p maxhits (traverse tree st) 0 h2 = (r4, h4)"
    by (cases "search_loop ev cache p maxhits (traverse tree st) 0 h2")
  have f3: "same_except L h1 h4"
    using same_except_trans[OF f1 search_loop_frame[OF p sl]] .
  show ?thesis
    using d sc cm sl f1 f2 f3
    by (auto simp add: find_match_def L_def[symmetric] split: sum.splits)
qed

text \<open>
  Claim C9. \<^verbatim>\<open>find_match\<close> works on a copy that it adds to the store: every pattern tree
  that was in the store before the call, the one it was called on among them, is there
  after it exactly as it was (names, controllers, counters \<open>skipped\<close> and the caches of
  the syntax objects), whatever the search yields or raises.
\<close>

theorem find_match_leaves_patterns_unchanged:
  "take (length h) (snd (find_match sy ev h self tree maxhits cache st)) = h"
proof -
  let ?h' = "snd (find_match sy ev h self tree maxhits cache st)"
  let ?L = "if fst self < length h then length h else fst self"
  have f: "same_except ?L (fst (deepcopy h self)) ?h'" by (rule find_match_frame)
  have len: "length h \<le> length ?h'"
    using f by (auto simp add: same_except_def deepcopy_def split: if_splits)
  have nth: "?h' ! j = h ! j" if "j < length h" for j
    using f that by (auto simp add: same_except_def deepcopy_def nth_append split: if_splits)
  have "take (length h) ?h' = take (length h) h"
    by (rule nth_take_lemma) (use len nth in simp_all)
  then show ?thesis by simp
qed

section \<open>The cap on the number of hits\<close>

lemma search_loop_take:
  "n < k \<Longrightarrow>
   fst (fst (search_loop ev cache p (Some k) nodes n h))
     = take (nat (k - n)) (fst (fst (search_loop ev cache p None nodes n h)))"
proof (induction nodes arbitrary: n h)
  case Nil
  then show ?case by simp
next
  case (Cons node nodes)
  show ?case
  proof (cases "match ev (height (subtree node)) cache p node h")
    case (Pair res h1)
    show ?thesis
    proof (cases res)
      case (Inl e)
      with Pair show ?thesis by simp
    next
      case (Inr b)
      show ?thesis
      proof (cases b)
        case True
        show ?thesis
        proof (cases "n + 1 \<ge> k")
          case True
          with Cons.prems have "nat (k - n) = Suc 0" by simp
          with Pair Inr \<open>b\<close> True show ?thesis
            by (auto simp add: Let_def split: prod.splits)
        next
          case False
          then have lt: "n + 1 < k" by simp
          have "nat (k - n) = Suc (nat (k - (n + 1)))" using lt by simp
          with Pair Inr \<open>b\<close> False Cons.IH[OF lt, of h1] show ?thesis
            by (auto simp add: Let_def split: prod.splits)
        qed
      next
        case False
        with Pair Inr Cons.prems Cons.IH[OF Cons.prems, of h1] show ?thesis
          by (auto simp add: Let_def split: prod.splits)
      qed
    qed
  qed
qed

text \<open>
  With \<open>maxhits = k\<close> and \<open>k \<ge> 1\<close>, the nodes that \<^verbatim>\<open>find_match\<close> yields are the first \<open>k\<close> of
  the nodes it yields with \<open>maxhits = None\<close> (all of them when there are fewer).
\<close>

lemma find_match_take:
  assumes "1 \<le> k"
  shows "fst (fst (find_match sy ev h self tree (Some k) cache st))
           = take (nat k) (fst (fst (find_match sy ev h self tree None cache st)))"
proof -
  have k: "0 < k" "nat k \<ge> 1" using assms by simp_all
  have one: "\<And>x::tnode. take (nat k) [x] = [x]" using k by (cases "nat k") simp_all
  show ?thesis
    using search_loop_take[of 0 k] k one
    by (simp add: find_match_def split: prod.splits sum.splits)
qed

text \<open>
  Claim C8 says that for any integer \<open>maxhits = k\<close> the search stops after \<open>k\<close> matches, and
  the docstring of \<^verbatim>\<open>find_match\<close> calls \<^verbatim>\<open>maxhits\<close> the number of matches to be searched
  for. The loop tests \<^verbatim>\<open>num_hits >= maxhits\<close> at the end of each round, after the
  \<^verbatim>\<open>yield\<close>: with \<open>maxhits = 0\<close> the pattern \<^verbatim>\<open>a\<close>, searched in the tree of the single node
  \<^verbatim>\<open>a\<close>, still yields that node, and the generator then ends without an exception.
\<close>

theorem maxhits_zero_yields_one:
  "fst (find_match example_symbols no_helpers
        [TreePattern ''a'' None PatternSyntax []] (0, [])
        (tree_root (Tree ''a'' [] [])) (Some 0) None Preorder)
     = ([tree_root (Tree ''a'' [] [])], None)"
  by code_simp

section \<open>Malformed bounded-count markers\<close>





















section \<open>Extreme selectors without a candidate\<close>

text \<open>
  Claim C3 says that the search of an extreme-selector pattern returns no node when no
  candidate exists. In the code the pattern is a single-match pattern when the compilation
  of one of its nodes returns \<^verbatim>\<open>True\<close>; \<^verbatim>\<open>find_match\<close> then collects the target nodes that
  match and yields \<^verbatim>\<open>find_extreme_case(matched_nodes)\<close>. That method starts from
  \<^verbatim>\<open>match_list[0]\<close>, outside any handler: when no target node matches, the generator does
  not end empty, it ends with \<^verbatim>\<open>IndexError\<close>. (The last premise says that every node of
  the copy has its controller, which the first loop of the method reads.)
\<close>

theorem extreme_selector_without_candidate:
  assumes "deepcopy h self = (h1, one_use_pattern)"
    and "set_controllers sy (traverse_pattern h1 one_use_pattern) False h1 = (Inr True, h2)"
    and "collect_matches ev cache one_use_pattern (traverse tree st) [] h2 = (Inr [], h3)"
    and "last_single_match h3 (traverse_pattern h3 one_use_pattern) None = Inr pat"
  shows "find_match sy ev h self tree maxhits cache st = (([], Some IndexError), h3)"
  using assms by (simp add: find_match_def find_extreme_case_def)

text \<open>The root of the pattern holds the marker of \<^verbatim>\<open>SET["all_nodes"]\<close> and has a child
  \<^verbatim>\<open>c\<close>; the target tree is the single node \<^verbatim>\<open>a\<close>, which has no child to match \<^verbatim>\<open>c\<close>.\<close>

theorem extreme_selector_without_candidate_witness:
  \<open>fst (find_match example_symbols no_helpers
        [TreePattern ''@.dist >= [best].dist'' None PatternSyntax
           [TreePattern ''c'' None PatternSyntax []]]
        (0, []) (tree_root (Tree ''a'' [] [])) (Some 1) None Preorder)
     = ([], Some IndexError)\<close>
proof -
  let ?h = "[TreePattern ''@.dist >= [best].dist'' None PatternSyntax
           [TreePattern ''c'' None PatternSyntax []]]"
  let ?c = \<open>\<lparr>root = None, leaf = None, c_not = False, low = 0, high = - 1,
         skipped = 0, single_match = True,
         single_match_contstraint = Some ''@.dist >= [best].dist'',
         allow_indirect_connection = False, direct_connection_first = False\<rparr>\<close>
  let ?h2 = \<open>?h @ [TreePattern ''@'' (Some ?c) PatternSyntax
                     [TreePattern ''@.name == "c"'' (Some default_controller) PatternSyntax []]]\<close>
  have a1: "deepcopy ?h (0, []) = (?h @ [?h ! 0], (1, []))"
    by (simp add: deepcopy_def)
  have a2: "set_controllers example_symbols (traverse_pattern (?h @ [?h ! 0]) (1, [])) False
              (?h @ [?h ! 0]) = (Inr True, ?h2)"
    by code_simp
  have a3: "collect_matches no_helpers None (1, []) (traverse (tree_root (Tree ''a'' [] [])) Preorder)
              [] ?h2 = (Inr [], ?h2)"
    by code_simp
  have a4: "last_single_match ?h2 (traverse_pattern ?h2 (1, [])) None = Inr (Some (1, []))"
    by code_simp
  from extreme_selector_without_candidate[OF a1 a2 a3 a4, of "Some 1"]
  show ?thesis by simp
qed

end
